theory Spec2Isabelle
  imports Complex_Main
begin

section \<open>Tensors\<close>

text \<open>
  The populations of \<^verbatim>\<open>node.py\<close> keep their state in torch tensors. A tensor of shape
  \<^verbatim>\<open>[batch_size, *shape]\<close> is modelled as a list of \<open>batch_size\<close> rows, each row the
  flattened list of the \<open>n\<close> neurons of the layer; a tensor of shape \<^verbatim>\<open>shape\<close> (the
  adaptive threshold) is one such row. The type \<open>'a\<close> of the entries is left open: the
  operations of a step are written with the \<open>+\<close>, \<open>-\<close>, \<open>*\<close>, \<open><\<close> and \<open>\<le>\<close> of \<open>'a\<close>,
  whatever they are, so that what is proved for every \<open>'a\<close> holds for the 32-bit floats
  of the code, with their rounding, their infinities and their NaN. At \<open>'a = real\<close> the
  arithmetic is exact.
\<close>

type_synonym 'a vec = "'a list"
type_synonym 'a tensor = "'a list list"
type_synonym mask = "bool list list"

definition has_shape :: "nat \<Rightarrow> nat \<Rightarrow> 'a list list \<Rightarrow> bool" where
  "has_shape B n t \<longleftrightarrow> length t = B \<and> list_all (\<lambda>row. length row = n) t"

text \<open>Elementwise operations on tensors of one shape.\<close>

definition tmap :: "('a \<Rightarrow> 'b) \<Rightarrow> 'a list list \<Rightarrow> 'b list list" where
  "tmap f t = map (map f) t"

definition tmap2 :: "('a \<Rightarrow> 'b \<Rightarrow> 'c) \<Rightarrow> 'a list list \<Rightarrow> 'b list list \<Rightarrow> 'c list list" where
  "tmap2 f t u = map2 (map2 f) t u"

text \<open>\<^verbatim>\<open>t.masked_fill_(m, c)\<close>: the entries of \<open>t\<close> where \<open>m\<close> holds become \<open>c\<close>.\<close>

definition masked_fill :: "'a tensor \<Rightarrow> mask \<Rightarrow> 'a \<Rightarrow> 'a tensor" where
  "masked_fill t m c = tmap2 (\<lambda>a b. if b then c else a) t m"

text \<open>\<^verbatim>\<open>t.fill_(c)\<close> keeps the shape of \<open>t\<close>.\<close>

definition fill :: "'a tensor \<Rightarrow> 'a \<Rightarrow> 'a tensor" where
  "fill t c = tmap (\<lambda>_. c) t"

text \<open>\<^verbatim>\<open>c * torch.ones(batch_size, *shape)\<close>.\<close>

definition full :: "nat \<Rightarrow> nat \<Rightarrow> 'a \<Rightarrow> 'a tensor" where
  "full B n c = replicate B (replicate n c)"

text \<open>
  \<^verbatim>\<open>s.float().sum(0)\<close>: for each of the \<open>n\<close> neurons, the sum over the batch of 1 where
  it spiked and 0 where it did not. The sum is a count, which floats hold exactly up to
  \<open>2 ^ 24\<close> in whatever order the terms are added.
\<close>

definition sum0 :: "nat \<Rightarrow> mask \<Rightarrow> ('a::{zero,one,plus}) vec" where
  "sum0 n m = map (\<lambda>i. foldr (+) (map (\<lambda>row. if row ! i then 1 else 0) m) 0) [0..<n]"

text \<open>
  \<^verbatim>\<open>v >= (thresh + theta)\<close>: the row \<open>thresh + theta\<close> is broadcast over the batch
  dimension of \<open>v\<close>.
\<close>

definition ge_broadcast :: "('a::ord) tensor \<Rightarrow> 'a vec \<Rightarrow> mask" where
  "ge_broadcast t th = map (\<lambda>row. map2 (\<lambda>a b. a \<ge> b) row th) t"

text \<open>
  Broadcasting of a two-dimensional tensor to the shape \<open>[B, n]\<close>: a dimension of size 1
  is repeated. A list of rows is a tensor when its rows have one length; the empty list
  stands for an empty batch of rows of the length \<open>n\<close> of the layer. The lists model
  tensors of two dimensions only; an input of one dimension, which torch would also
  broadcast, is outside the type.
\<close>

definition rectangular :: "'a list list \<Rightarrow> bool" where
  "rectangular t \<longleftrightarrow> (case t of [] \<Rightarrow> True | row # _ \<Rightarrow> has_shape (length t) (length row) t)"

definition row_length :: "nat \<Rightarrow> 'a list list \<Rightarrow> nat" where
  "row_length n t = (case t of [] \<Rightarrow> n | row # _ \<Rightarrow> length row)"

definition expands_to :: "nat \<Rightarrow> nat \<Rightarrow> 'a list list \<Rightarrow> bool" where
  "expands_to B n t \<longleftrightarrow>
     rectangular t \<and> (length t = B \<or> length t = 1) \<and>
     list_all (\<lambda>row. length row = n \<or> length row = 1) t"

definition expand :: "nat \<Rightarrow> nat \<Rightarrow> 'a list list \<Rightarrow> 'a list list" where
  "expand B n t =
     map (\<lambda>row. if length row = n then row else replicate n (hd row))
       (if length t = B then t else replicate B (hd t))"

datatype error = RuntimeError

section \<open>Float values for concrete runs\<close>

text \<open>
  The values of a 32-bit float: the finite ones, the two infinities and NaN. The
  operations follow IEEE 754 on the infinities and on NaN (NaN propagates, \<open>inf - inf\<close>
  and \<open>0 * inf\<close> are NaN, every comparison with NaN is false), and a finite result of
  magnitude \<open>2 ^ 128\<close> or more overflows to the infinity of its sign. Other finite
  results are exact: the type does not round, and it has one zero. It is used below to
  run the step on concrete states whose exact finite results are floats, where it
  computes what the code computes; the general statements are not about this type but
  about every \<open>'a\<close>.
\<close>

datatype fl = Finite real | PInf | NInf | NaN

definition overflow :: "real \<Rightarrow> fl" where
  "overflow r =
     (if 2 ^ 128 \<le> r then PInf else if r \<le> - (2 ^ 128) then NInf else Finite r)"

instantiation fl :: "{zero, one, plus, uminus, minus, times, ord}"
begin

definition zero_fl :: fl where
  "0 = Finite 0"

definition one_fl :: fl where
  "1 = Finite 1"

fun plus_fl :: "fl \<Rightarrow> fl \<Rightarrow> fl" where
  "NaN + b = NaN"
| "a + NaN = NaN"
| "PInf + NInf = NaN"
| "NInf + PInf = NaN"
| "PInf + b = PInf"
| "a + PInf = PInf"
| "NInf + b = NInf"
| "a + NInf = NInf"
| "Finite x + Finite y = overflow (x + y)"

fun uminus_fl :: "fl \<Rightarrow> fl" where
  "- NaN = NaN"
| "- PInf = NInf"
| "- NInf = PInf"
| "- Finite x = Finite (- x)"

definition minus_fl :: "fl \<Rightarrow> fl \<Rightarrow> fl" where
  "a - b = a + (- b :: fl)"

fun times_fl :: "fl \<Rightarrow> fl \<Rightarrow> fl" where
  "NaN * b = NaN"
| "a * NaN = NaN"
| "Finite x * Finite y = overflow (x * y)"
| "Finite x * PInf = (if x = 0 then NaN else if 0 < x then PInf else NInf)"
| "Finite x * NInf = (if x = 0 then NaN else if 0 < x then NInf else PInf)"
| "PInf * Finite y = (if y = 0 then NaN else if 0 < y then PInf else NInf)"
| "NInf * Finite y = (if y = 0 then NaN else if 0 < y then NInf else PInf)"
| "PInf * PInf = PInf"
| "PInf * NInf = NInf"
| "NInf * PInf = NInf"
| "NInf * NInf = PInf"

fun less_fl :: "fl \<Rightarrow> fl \<Rightarrow> bool" where
  "NaN < b \<longleftrightarrow> False"
| "a < NaN \<longleftrightarrow> False"
| "Finite x < Finite y \<longleftrightarrow> x < y"
| "Finite x < PInf \<longleftrightarrow> True"
| "Finite x < NInf \<longleftrightarrow> False"
| "PInf < b \<longleftrightarrow> False"
| "NInf < Finite y \<longleftrightarrow> True"
| "NInf < PInf \<longleftrightarrow> True"
| "NInf < NInf \<longleftrightarrow> False"

fun less_eq_fl :: "fl \<Rightarrow> fl \<Rightarrow> bool" where
  "NaN \<le> b \<longleftrightarrow> False"
| "a \<le> NaN \<longleftrightarrow> False"
| "Finite x \<le> Finite y \<longleftrightarrow> x \<le> y"
| "Finite x \<le> PInf \<longleftrightarrow> True"
| "Finite x \<le> NInf \<longleftrightarrow> False"
| "PInf \<le> PInf \<longleftrightarrow> True"
| "PInf \<le> Finite y \<longleftrightarrow> False"
| "PInf \<le> NInf \<longleftrightarrow> False"
| "NInf \<le> b \<longleftrightarrow> True"

instance ..

end

section \<open>The excitatory population\<close>

text \<open>
  The fields of \<^verbatim>\<open>QuintanaExcNodes\<close>. The base class \<^verbatim>\<open>Nodes\<close> of the host framework
  supplies \<open>n\<close>, \<open>dt\<close> and \<open>learning\<close>; it also owns the spike tensor \<open>s\<close>, which
  \<^verbatim>\<open>forward\<close> assigns anew in every step and which is therefore an output of the step
  below. The spike traces and the summed input that the base class keeps are not read by
  this class and are left out.
\<close>

record 'a exc_nodes =
  exc_n :: nat
  exc_dt :: 'a
  exc_learning :: bool
  exc_rest :: 'a
  exc_reset :: 'a
  exc_thresh :: 'a
  exc_refrac :: 'a
  exc_tc_decay :: 'a
  exc_decay :: 'a
  exc_theta_plus :: 'a
  exc_tc_theta_decay :: 'a
  exc_theta_decay :: 'a
  exc_v :: "'a tensor"
  exc_theta :: "'a vec"
  exc_refrac_count :: "'a tensor"
  exc_I :: "'a tensor"
  exc_X :: "'a tensor"
  exc_tau_inc :: 'a
  exc_tau_dec :: 'a
  exc_I_decay :: 'a
  exc_X_decay :: 'a
  exc_C :: 'a
  exc_R :: 'a
  exc_lbound :: "'a option"

text \<open>
  The arguments of \<^verbatim>\<open>QuintanaExcNodes.__init__\<close> that the class itself stores, with
  the defaults of the source in \<open>exc_defaults\<close>.
\<close>

record exc_args =
  arg_rest :: real
  arg_reset :: real
  arg_thresh :: real
  arg_refrac :: real
  arg_tc_decay :: real
  arg_theta_plus :: real
  arg_tc_theta_decay :: real
  arg_R :: real
  arg_tau_inc :: real
  arg_tau_dec :: real
  arg_lbound :: "real option"

definition exc_defaults :: exc_args where
  "exc_defaults = \<lparr>arg_rest = -65, arg_reset = -65, arg_thresh = -52, arg_refrac = 2,
     arg_tc_decay = 100, arg_theta_plus = 0.05, arg_tc_theta_decay = 20000000, arg_R = 32,
     arg_tau_inc = 10, arg_tau_dec = 5, arg_lbound = Some (-100)\<rparr>"

text \<open>
  \<^verbatim>\<open>__init__\<close>. The number of neurons \<open>n\<close>, the time step and the learning flag come
  from the base class and are parameters here. The five buffers made with
  \<^verbatim>\<open>torch.empty_like\<close> hold whatever the allocator returns until \<^verbatim>\<open>compute_decays\<close>
  runs; \<open>u\<close> gives their contents. The state tensors start empty. The constructor has no
  \<^verbatim>\<open>raise\<close> and no \<^verbatim>\<open>assert\<close>, so every branch of the model returns \<open>Inr\<close>. The
  constructor and \<^verbatim>\<open>compute_decays\<close> are written over the reals.
\<close>

definition QuintanaExcNodes_init ::
  "nat \<Rightarrow> real \<Rightarrow> bool \<Rightarrow> (nat \<Rightarrow> real) \<Rightarrow> exc_args \<Rightarrow> error + real exc_nodes" where
  "QuintanaExcNodes_init n dt learning u a = Inr
     \<lparr>exc_n = n, exc_dt = dt, exc_learning = learning,
      exc_rest = arg_rest a, exc_reset = arg_reset a, exc_thresh = arg_thresh a,
      exc_refrac = arg_refrac a, exc_tc_decay = arg_tc_decay a, exc_decay = u 0,
      exc_theta_plus = arg_theta_plus a, exc_tc_theta_decay = arg_tc_theta_decay a,
      exc_theta_decay = u 1,
      exc_v = [], exc_theta = map (\<lambda>one. one * 20) (replicate n 1),
      exc_refrac_count = [], exc_I = [], exc_X = [],
      exc_tau_inc = arg_tau_inc a, exc_tau_dec = arg_tau_dec a,
      exc_I_decay = u 2, exc_X_decay = u 3, exc_C = u 4,
      exc_R = arg_R a, exc_lbound = arg_lbound a\<rparr>"

text \<open>
  \<^verbatim>\<open>compute_decays\<close>. The base class stores \<open>dt\<close>. Tensor division does not raise in
  torch; where a divisor is zero the float result is infinite or NaN, which the reals do
  not have, so nothing below is proved about that case.
\<close>

definition exc_compute_decays :: "real exc_nodes \<Rightarrow> real \<Rightarrow> real exc_nodes" where
  "exc_compute_decays s dt =
     s\<lparr>exc_dt := dt,
       exc_decay := dt / exc_tc_decay s,
       exc_theta_decay := dt / exc_tc_theta_decay s,
       exc_C := (exc_tau_dec s / exc_tau_inc s)
                  powr (exc_tau_inc s / (exc_tau_dec s - exc_tau_inc s)),
       exc_I_decay := dt / exc_tau_inc s,
       exc_X_decay := dt / exc_tau_dec s\<rparr>"

text \<open>\<^verbatim>\<open>set_batch_size\<close> allocates the four batched tensors; \<open>theta\<close> is not touched.\<close>

definition exc_set_batch_size ::
  "('a::{zero,one,times}) exc_nodes \<Rightarrow> nat \<Rightarrow> 'a exc_nodes" where
  "exc_set_batch_size s batch_size =
     (let X = full batch_size (exc_n s) 0;
          I = full batch_size (exc_n s) 0;
          v = tmap (\<lambda>one. exc_rest s * one) (full batch_size (exc_n s) 1);
          refrac_count = tmap (\<lambda>_. 0) v
      in s\<lparr>exc_X := X, exc_I := I, exc_v := v, exc_refrac_count := refrac_count\<rparr>)"

text \<open>\<^verbatim>\<open>reset_state_variables\<close>.\<close>

definition exc_reset_state_variables :: "('a::zero) exc_nodes \<Rightarrow> 'a exc_nodes" where
  "exc_reset_state_variables s =
     s\<lparr>exc_v := fill (exc_v s) (exc_rest s),
       exc_X := fill (exc_X s) 0,
       exc_I := fill (exc_I s) 0,
       exc_refrac_count := fill (exc_refrac_count s) 0\<rparr>"

text \<open>
  The state \<^verbatim>\<open>forward\<close> runs on: the four batched tensors of one shape \<open>[B, n]\<close>, as
  \<^verbatim>\<open>set_batch_size\<close> allocates them, and \<open>theta\<close> with one entry per neuron. A state of
  other shapes can only come from an assignment to the buffers from outside the class;
  it is reported as an error before anything is written. A step completes exactly on
  such a state and an input of the shape \<open>[B, n]\<close> of the state.
\<close>

definition exc_state_ok :: "'a exc_nodes \<Rightarrow> bool" where
  "exc_state_ok s \<longleftrightarrow>
     (let B = length (exc_v s); n = exc_n s
      in has_shape B n (exc_v s) \<and> has_shape B n (exc_I s) \<and> has_shape B n (exc_X s) \<and>
         has_shape B n (exc_refrac_count s) \<and> length (exc_theta s) = n)"

definition exc_shapes_ok :: "'a exc_nodes \<Rightarrow> 'a tensor \<Rightarrow> bool" where
  "exc_shapes_ok s x \<longleftrightarrow>
     exc_state_ok s \<and> has_shape (length (exc_v s)) (exc_n s) x"

text \<open>
  \<^verbatim>\<open>forward\<close>, statement by statement. The result is the new state, the spike tensor
  \<open>s\<close> of the step, and the input tensor as the step leaves it: \<^verbatim>\<open>x.masked_fill_\<close>
  writes into the caller's tensor.

  The step raises a \<^verbatim>\<open>RuntimeError\<close> on an input of another shape than the state, and
  the error carries what the step had written by then. The first four updates do not
  read \<open>x\<close>. \<^verbatim>\<open>x.masked_fill_\<close> raises unless the mask, of the shape of the state,
  broadcasts to the shape of \<open>x\<close>; where it does and \<open>x\<close> is larger than the state (a
  state with one batch element or one neuron), \<open>x\<close> is masked, the counter is lowered,
  and \<^verbatim>\<open>self.X += x\<close> raises. Nothing is clipped on either path. A list whose rows
  differ in length is no tensor and is refused at once.
\<close>

definition exc_forward ::
  "('a::{zero,one,plus,minus,times,ord}) exc_nodes \<Rightarrow> 'a tensor \<Rightarrow>
   (error \<times> 'a exc_nodes \<times> 'a tensor) + ('a exc_nodes \<times> mask \<times> 'a tensor)" where
  "exc_forward s x =
     (if \<not> exc_state_ok s \<or> \<not> rectangular x then Inl (RuntimeError, s, x)
      else
        let v1 = tmap2 (\<lambda>v i. v + exc_decay s * (exc_rest s - v + exc_R s * i))
                   (exc_v s) (exc_I s);
            I1 = tmap2 (\<lambda>i x. i + exc_I_decay s * (exc_C s * x - i)) (exc_I s) (exc_X s);
            X1 = tmap (\<lambda>x. x - exc_X_decay s * x) (exc_X s);
            theta1 = (if exc_learning s
                      then map (\<lambda>t. t - exc_theta_decay s * t) (exc_theta s)
                      else exc_theta s);
            refractory = tmap (\<lambda>r. r > 0) (exc_refrac_count s)
        in
          if \<not> expands_to (length x) (row_length (exc_n s) x) refractory
          then Inl (RuntimeError,
                 s\<lparr>exc_v := v1, exc_theta := theta1, exc_I := I1, exc_X := X1\<rparr>, x)
          else
            let x1 = masked_fill x (expand (length x) (row_length (exc_n s) x) refractory) 0;
                refrac_count1 = tmap (\<lambda>r. r - exc_dt s) (exc_refrac_count s)
            in
              if \<not> has_shape (length (exc_v s)) (exc_n s) x
              then Inl (RuntimeError,
                     s\<lparr>exc_v := v1, exc_theta := theta1, exc_refrac_count := refrac_count1,
                       exc_I := I1, exc_X := X1\<rparr>, x1)
              else
                let X2 = tmap2 (+) X1 x1;
                    spikes = ge_broadcast v1 (map (\<lambda>t. exc_thresh s + t) theta1);
                    refrac_count2 = masked_fill refrac_count1 spikes (exc_refrac s);
                    v2 = masked_fill v1 spikes (exc_reset s);
                    theta2 = (if exc_learning s
                              then let scaling_factor = 1
                                   in map2 (\<lambda>t k. t + scaling_factor * exc_theta_plus s * k)
                                        theta1 (sum0 (exc_n s) spikes)
                              else theta1);
                    v3 = (case exc_lbound s of
                            None \<Rightarrow> v2
                          | Some lb \<Rightarrow> masked_fill v2 (tmap (\<lambda>v. v < lb) v2) lb)
                in Inr (s\<lparr>exc_v := v3, exc_theta := theta2,
                          exc_refrac_count := refrac_count2, exc_I := I1, exc_X := X2\<rparr>,
                        spikes, x1))"

section \<open>The output population\<close>

text \<open>
  The fields of \<^verbatim>\<open>QuintanaSLNodes\<close>: no adaptive threshold, no refractory counter and
  no lower bound.
\<close>

record 'a sl_nodes =
  sl_n :: nat
  sl_dt :: 'a
  sl_learning :: bool
  sl_rest :: 'a
  sl_reset :: 'a
  sl_thresh :: 'a
  sl_tc_decay :: 'a
  sl_decay :: 'a
  sl_I :: "'a tensor"
  sl_X :: "'a tensor"
  sl_tau_inc :: 'a
  sl_tau_dec :: 'a
  sl_I_decay :: 'a
  sl_X_decay :: 'a
  sl_C :: 'a
  sl_R :: 'a
  sl_v :: "'a tensor"

record sl_args =
  sarg_rest :: real
  sarg_reset :: real
  sarg_thresh :: real
  sarg_tc_decay :: real
  sarg_R :: real
  sarg_tau_inc :: real
  sarg_tau_dec :: real

definition sl_defaults :: sl_args where
  "sl_defaults = \<lparr>sarg_rest = -60, sarg_reset = -45, sarg_thresh = -40, sarg_tc_decay = 10,
     sarg_R = 32, sarg_tau_inc = 10, sarg_tau_dec = 5\<rparr>"

text \<open>\<^verbatim>\<open>__init__\<close>, with the parameters of the base class and the unset buffers as above.\<close>

definition QuintanaSLNodes_init ::
  "nat \<Rightarrow> real \<Rightarrow> bool \<Rightarrow> (nat \<Rightarrow> real) \<Rightarrow> sl_args \<Rightarrow> error + real sl_nodes" where
  "QuintanaSLNodes_init n dt learning u a = Inr
     \<lparr>sl_n = n, sl_dt = dt, sl_learning = learning,
      sl_rest = sarg_rest a, sl_reset = sarg_reset a, sl_thresh = sarg_thresh a,
      sl_tc_decay = sarg_tc_decay a, sl_decay = u 0,
      sl_I = [], sl_X = [],
      sl_tau_inc = sarg_tau_inc a, sl_tau_dec = sarg_tau_dec a,
      sl_I_decay = u 1, sl_X_decay = u 2, sl_C = u 3,
      sl_R = sarg_R a, sl_v = []\<rparr>"

definition sl_compute_decays :: "real sl_nodes \<Rightarrow> real \<Rightarrow> real sl_nodes" where
  "sl_compute_decays s dt =
     s\<lparr>sl_dt := dt,
       sl_decay := dt / sl_tc_decay s,
       sl_C := (sl_tau_dec s / sl_tau_inc s)
                 powr (sl_tau_inc s / (sl_tau_dec s - sl_tau_inc s)),
       sl_I_decay := dt / sl_tau_inc s,
       sl_X_decay := dt / sl_tau_dec s\<rparr>"

definition sl_set_batch_size :: "('a::{zero,one,times}) sl_nodes \<Rightarrow> nat \<Rightarrow> 'a sl_nodes" where
  "sl_set_batch_size s batch_size =
     s\<lparr>sl_X := full batch_size (sl_n s) 0,
       sl_I := full batch_size (sl_n s) 0,
       sl_v := tmap (\<lambda>one. sl_rest s * one) (full batch_size (sl_n s) 1)\<rparr>"

definition sl_reset_state_variables :: "('a::zero) sl_nodes \<Rightarrow> 'a sl_nodes" where
  "sl_reset_state_variables s =
     s\<lparr>sl_X := fill (sl_X s) 0,
       sl_I := fill (sl_I s) 0,
       sl_v := fill (sl_v s) (sl_rest s)\<rparr>"

text \<open>
  The state the decay of a step runs on: \<open>v\<close>, \<open>I\<close> and \<open>X\<close> of one shape \<open>[B, n]\<close>, as
  \<^verbatim>\<open>set_batch_size\<close> allocates them. It is asked for outside learning mode only.
\<close>

definition sl_state_ok :: "'a sl_nodes \<Rightarrow> bool" where
  "sl_state_ok s \<longleftrightarrow>
     (let B = length (sl_v s); n = sl_n s
      in has_shape B n (sl_v s) \<and> has_shape B n (sl_I s) \<and> has_shape B n (sl_X s))"

text \<open>
  The part of \<^verbatim>\<open>forward\<close> inside \<^verbatim>\<open>if not self.learning\<close>: the decay of \<open>v\<close>, \<open>I\<close>
  and \<open>X\<close> and the integration of the input. \<^verbatim>\<open>self.X += x\<close> broadcasts \<open>x\<close> to the
  shape of \<open>X\<close> and raises when it cannot, after the three decays have been written. The
  result is the triple \<open>(v, I, X)\<close>, or the error with the same triple.
\<close>

definition sl_integrate ::
  "('a::{plus,minus,times}) sl_nodes \<Rightarrow> 'a tensor \<Rightarrow>
   (error \<times> 'a tensor \<times> 'a tensor \<times> 'a tensor) + ('a tensor \<times> 'a tensor \<times> 'a tensor)" where
  "sl_integrate s x =
     (if \<not> sl_state_ok s \<or> \<not> rectangular x
      then Inl (RuntimeError, sl_v s, sl_I s, sl_X s)
      else
        let v1 = tmap2 (\<lambda>v i. v + sl_decay s * (sl_rest s - v + sl_R s * i))
                   (sl_v s) (sl_I s);
            I1 = tmap2 (\<lambda>i x. i + sl_I_decay s * (sl_C s * x - i)) (sl_I s) (sl_X s);
            X1 = tmap (\<lambda>x. x - sl_X_decay s * x) (sl_X s)
        in
          if \<not> expands_to (length (sl_v s)) (sl_n s) x
          then Inl (RuntimeError, v1, I1, X1)
          else Inr (v1, I1, tmap2 (+) X1 (expand (length (sl_v s)) (sl_n s) x)))"

text \<open>
  \<^verbatim>\<open>forward\<close>. The decay and the integration of the input are inside
  \<^verbatim>\<open>if not self.learning\<close>; the spike check and the voltage reset are after it and run
  in both modes. In learning mode neither the input nor \<open>I\<close> and \<open>X\<close> are read, and the
  step completes on every input. The input is not written to.
\<close>

definition sl_forward ::
  "('a::{plus,minus,times,ord}) sl_nodes \<Rightarrow> 'a tensor \<Rightarrow>
   (error \<times> 'a sl_nodes) + ('a sl_nodes \<times> mask)" where
  "sl_forward s x =
     (case (if \<not> sl_learning s then sl_integrate s x
            else Inr (sl_v s, sl_I s, sl_X s)) of
        Inl (e, v1, I1, X1) \<Rightarrow> Inl (e, s\<lparr>sl_v := v1, sl_I := I1, sl_X := X1\<rparr>)
      | Inr (v1, I1, X2) \<Rightarrow>
          let spikes = tmap (\<lambda>v. v \<ge> sl_thresh s) v1;
              v2 = masked_fill v1 spikes (sl_reset s)
          in Inr (s\<lparr>sl_v := v2, sl_I := I1, sl_X := X2\<rparr>, spikes))"

section \<open>Intermediate values of a step\<close>

text \<open>The values the step computes on the way, under the names of the source.\<close>

definition exc_v_decayed :: "('a::{plus,minus,times}) exc_nodes \<Rightarrow> 'a tensor" where
  "exc_v_decayed s =
     tmap2 (\<lambda>v i. v + exc_decay s * (exc_rest s - v + exc_R s * i)) (exc_v s) (exc_I s)"

definition exc_theta_decayed :: "('a::{minus,times}) exc_nodes \<Rightarrow> 'a vec" where
  "exc_theta_decayed s =
     (if exc_learning s then map (\<lambda>t. t - exc_theta_decay s * t) (exc_theta s)
      else exc_theta s)"

definition exc_spikes :: "('a::{plus,minus,times,ord}) exc_nodes \<Rightarrow> mask" where
  "exc_spikes s =
     ge_broadcast (exc_v_decayed s) (map (\<lambda>t. exc_thresh s + t) (exc_theta_decayed s))"

definition exc_x_masked :: "('a::{zero,ord}) exc_nodes \<Rightarrow> 'a tensor \<Rightarrow> 'a tensor" where
  "exc_x_masked s x = masked_fill x (tmap (\<lambda>r. r > 0) (exc_refrac_count s)) 0"

text \<open>A state over the reals, read as the state of floats with the same values.\<close>

definition exc_to_fl :: "real exc_nodes \<Rightarrow> fl exc_nodes" where
  "exc_to_fl s =
     \<lparr>exc_n = exc_n s, exc_dt = Finite (exc_dt s), exc_learning = exc_learning s,
      exc_rest = Finite (exc_rest s), exc_reset = Finite (exc_reset s),
      exc_thresh = Finite (exc_thresh s), exc_refrac = Finite (exc_refrac s),
      exc_tc_decay = Finite (exc_tc_decay s), exc_decay = Finite (exc_decay s),
      exc_theta_plus = Finite (exc_theta_plus s),
      exc_tc_theta_decay = Finite (exc_tc_theta_decay s),
      exc_theta_decay = Finite (exc_theta_decay s),
      exc_v = tmap Finite (exc_v s), exc_theta = map Finite (exc_theta s),
      exc_refrac_count = tmap Finite (exc_refrac_count s),
      exc_I = tmap Finite (exc_I s), exc_X = tmap Finite (exc_X s),
      exc_tau_inc = Finite (exc_tau_inc s), exc_tau_dec = Finite (exc_tau_dec s),
      exc_I_decay = Finite (exc_I_decay s), exc_X_decay = Finite (exc_X_decay s),
      exc_C = Finite (exc_C s), exc_R = Finite (exc_R s),
      exc_lbound = map_option Finite (exc_lbound s)\<rparr>"

section \<open>Example states\<close>

text \<open>
  A population of two neurons and one batch element with the parameters that
  \<^verbatim>\<open>model.py\<close> gives the hidden layer, at \<open>dt = 1\<close>, in learning mode. Neuron 0 is
  above its threshold; neuron 1 is refractory and far below the lower bound.
\<close>

definition exc_example :: "real exc_nodes" where
  "exc_example = \<lparr>exc_n = 2, exc_dt = 1, exc_learning = True,
     exc_rest = 0, exc_reset = 0, exc_thresh = 120, exc_refrac = 2,
     exc_tc_decay = 100, exc_decay = 1 / 100,
     exc_theta_plus = 1 / 20, exc_tc_theta_decay = 20000000, exc_theta_decay = 1 / 20000000,
     exc_v = [[200, -300]], exc_theta = [20, 20], exc_refrac_count = [[0, 1 / 2]],
     exc_I = [[0, 0]], exc_X = [[1, 1]],
     exc_tau_inc = 10, exc_tau_dec = 5, exc_I_decay = 1 / 10, exc_X_decay = 1 / 5,
     exc_C = 4, exc_R = 32, exc_lbound = Some (-100)\<rparr>"



text \<open>With a reset voltage of \<open>-65\<close> below a lower bound of \<open>-60\<close>.\<close>

definition exc_example_low_reset :: "real exc_nodes" where
  "exc_example_low_reset = exc_example\<lparr>exc_reset := -65, exc_lbound := Some (-60)\<rparr>"

text \<open>With a resting voltage of \<open>-65\<close>, the default of the class.\<close>

definition exc_example_rest :: "real exc_nodes" where
  "exc_example_rest = exc_example\<lparr>exc_rest := -65\<rparr>"

text \<open>Constructor arguments with equal rise and decay time constants.\<close>

definition exc_equal_taus :: exc_args where
  "exc_equal_taus = exc_defaults\<lparr>arg_tau_inc := 5, arg_tau_dec := 5\<rparr>"

definition sl_equal_taus :: sl_args where
  "sl_equal_taus = sl_defaults\<lparr>sarg_tau_inc := 5, sarg_tau_dec := 5\<rparr>"

definition unset_zero :: "nat \<Rightarrow> real" where
  "unset_zero k = 0"

text \<open>
  A population of one neuron whose parameters and values are all floats: a membrane
  time constant of 4, synaptic time constants \<open>tau_inc = 2\<close> and \<open>tau_dec = 1\<close>, the
  voltages and the refractory period that \<^verbatim>\<open>model.py\<close> gives the hidden layer, and the
  default lower bound of \<open>-100\<close>. It is constructed in learning mode, the default of the
  base class, given the time step \<open>dt = 1\<close> by \<^verbatim>\<open>compute_decays\<close> and a batch size of 1
  by \<^verbatim>\<open>set_batch_size\<close>, and then driven with the finite input \<open>2 ^ 127\<close> in every
  step. The states \<open>exc_float_1\<close> to \<open>exc_float_4\<close> are those after each of four steps.
\<close>

definition exc_float_args :: exc_args where
  "exc_float_args = \<lparr>arg_rest = 0, arg_reset = 0, arg_thresh = 120, arg_refrac = 2,
     arg_tc_decay = 4, arg_theta_plus = 1 / 16, arg_tc_theta_decay = 16, arg_R = 32,
     arg_tau_inc = 2, arg_tau_dec = 1, arg_lbound = Some (-100)\<rparr>"

definition exc_built :: "real exc_nodes" where
  "exc_built =
     exc_set_batch_size
       (exc_compute_decays (projr (QuintanaExcNodes_init 1 1 True unset_zero exc_float_args)) 1)
       1"

definition exc_float_0 :: "fl exc_nodes" where
  "exc_float_0 = exc_to_fl exc_built"

definition exc_float_1 :: "fl exc_nodes" where
  "exc_float_1 = exc_float_0\<lparr>exc_theta := [Finite (75 / 4)],
     exc_refrac_count := [[Finite (-1)]], exc_X := [[Finite (2 ^ 127)]]\<rparr>"

definition exc_float_2 :: "fl exc_nodes" where
  "exc_float_2 = exc_float_0\<lparr>exc_theta := [Finite (1125 / 64)],
     exc_refrac_count := [[Finite (-2)]], exc_I := [[PInf]],
     exc_X := [[Finite (2 ^ 127)]]\<rparr>"

definition exc_float_3 :: "fl exc_nodes" where
  "exc_float_3 = exc_float_0\<lparr>exc_theta := [Finite (16939 / 1024)],
     exc_refrac_count := [[Finite 2]], exc_I := [[NaN]],
     exc_X := [[Finite (2 ^ 127)]]\<rparr>"

definition exc_float_4 :: "fl exc_nodes" where
  "exc_float_4 = exc_float_0\<lparr>exc_v := [[NaN]], exc_theta := [Finite (254085 / 16384)],
     exc_refrac_count := [[Finite 1]], exc_I := [[NaN]], exc_X := [[Finite 0]]\<rparr>"

text \<open>
  An output population of two neurons and one batch element with the defaults of the
  class, at \<open>dt = 1\<close>, in learning mode. Neuron 0 is above the threshold of \<open>-40\<close>.
\<close>

definition sl_example :: "real sl_nodes" where
  "sl_example = \<lparr>sl_n = 2, sl_dt = 1, sl_learning = True,
     sl_rest = -60, sl_reset = -45, sl_thresh = -40,
     sl_tc_decay = 10, sl_decay = 1 / 10,
     sl_I = [[1, 2]], sl_X = [[3, 4]],
     sl_tau_inc = 10, sl_tau_dec = 5, sl_I_decay = 1 / 10, sl_X_decay = 1 / 5,
     sl_C = 4, sl_R = 32, sl_v = [[-30, -50]]\<rparr>"

text \<open>
  An output population of two neurons constructed in learning mode with a resting
  voltage of \<open>-30\<close> above the threshold of \<open>-40\<close>, the other arguments at their defaults,
  then given \<open>dt = 1\<close> by \<^verbatim>\<open>compute_decays\<close> and a batch size of 1 by
  \<^verbatim>\<open>set_batch_size\<close>.
\<close>

definition sl_high_rest :: sl_args where
  "sl_high_rest = sl_defaults\<lparr>sarg_rest := -30\<rparr>"

definition sl_built :: "real sl_nodes" where
  "sl_built =
     sl_set_batch_size
       (sl_compute_decays (projr (QuintanaSLNodes_init 2 1 True unset_zero sl_high_rest)) 1)
       1"

section \<open>Shapes and entries\<close>

lemma has_shape_length: "has_shape B n t \<Longrightarrow> length t = B"
  by (simp add: has_shape_def)

lemma has_shape_nth: "has_shape B n t \<Longrightarrow> b < B \<Longrightarrow> length (t ! b) = n"
  by (simp add: has_shape_def list_all_length)

lemma has_shape_tmap: "has_shape B n (tmap f t) = has_shape B n t"
  by (simp add: has_shape_def tmap_def list_all_length)

lemma has_shape_tmap2:
  "has_shape B n t \<Longrightarrow> has_shape B n u \<Longrightarrow> has_shape B n (tmap2 f t u)"
  by (simp add: has_shape_def tmap2_def list_all_length)

lemma has_shape_masked_fill:
  "has_shape B n t \<Longrightarrow> has_shape B n m \<Longrightarrow> has_shape B n (masked_fill t m c)"
  by (simp add: masked_fill_def has_shape_tmap2)

lemma has_shape_ge_broadcast:
  "has_shape B n t \<Longrightarrow> length th = n \<Longrightarrow> has_shape B n (ge_broadcast t th)"
  by (simp add: has_shape_def ge_broadcast_def list_all_length)

lemma tmap_nth:
  "has_shape B n t \<Longrightarrow> b < B \<Longrightarrow> i < n \<Longrightarrow> tmap f t ! b ! i = f (t ! b ! i)"
  by (simp add: has_shape_def tmap_def list_all_length)

lemma tmap2_nth:
  "has_shape B n t \<Longrightarrow> has_shape B n u \<Longrightarrow> b < B \<Longrightarrow> i < n \<Longrightarrow>
   tmap2 f t u ! b ! i = f (t ! b ! i) (u ! b ! i)"
  by (simp add: has_shape_def tmap2_def list_all_length)

lemma masked_fill_nth:
  "has_shape B n t \<Longrightarrow> has_shape B n m \<Longrightarrow> b < B \<Longrightarrow> i < n \<Longrightarrow>
   masked_fill t m c ! b ! i = (if m ! b ! i then c else t ! b ! i)"
  by (simp add: masked_fill_def tmap2_nth)

lemma ge_broadcast_nth:
  "has_shape B n t \<Longrightarrow> length th = n \<Longrightarrow> b < B \<Longrightarrow> i < n \<Longrightarrow>
   ge_broadcast t th ! b ! i \<longleftrightarrow> t ! b ! i \<ge> th ! i"
  by (simp add: has_shape_def ge_broadcast_def list_all_length)

lemma length_sum0: "length (sum0 n m) = n"
  by (simp add: sum0_def)


text \<open>
  After the clip no entry is below the bound, in the order of any entry type in which
  the bound is not below itself; in a linear order every entry is then at least the
  bound.
\<close>

lemma masked_fill_not_below:
  assumes "row \<in> set (masked_fill t (tmap (\<lambda>v. v < lb) t) lb)" and "a \<in> set row"
    and "\<not> lb < lb"
  shows "\<not> a < lb"
proof -
  from assms(1) obtain b where b: "b < length t"
    and row: "row = map2 (\<lambda>a b. if b then lb else a) (t ! b) (map (\<lambda>v. v < lb) (t ! b))"
    by (auto simp: masked_fill_def tmap2_def tmap_def set_zip)
  from assms(2) row obtain i where "i < length (t ! b)"
    and "a = (if t ! b ! i < lb then lb else t ! b ! i)"
    by (auto simp: set_zip)
  then show ?thesis
    using assms(3) by (simp split: if_splits)
qed

lemma masked_fill_lower:
  fixes lb :: "'a::linorder"
  assumes "row \<in> set (masked_fill t (tmap (\<lambda>v. v < lb) t) lb)" and "a \<in> set row"
  shows "lb \<le> a"
  using masked_fill_not_below [OF assms] by simp

lemma has_shape_rectangular: "has_shape B n t \<Longrightarrow> rectangular t"
  by (cases t) (auto simp: rectangular_def has_shape_def)

lemma row_length_has_shape: "has_shape B n t \<Longrightarrow> row_length n t = n"
  by (cases t) (auto simp: row_length_def has_shape_def)

lemma expands_to_same:
  assumes "has_shape B n t" and "has_shape B n m"
  shows "expands_to (length t) (row_length n t) m"
  using assms has_shape_rectangular [OF assms(2)] row_length_has_shape [OF assms(1)]
  by (simp add: expands_to_def has_shape_def list_all_length)

lemma expand_same:
  assumes "has_shape B n t" and "has_shape B n m"
  shows "expand (length t) (row_length n t) m = m"
proof -
  have "length m = length t"
    using assms by (simp add: has_shape_def)
  moreover have "map (\<lambda>row. if length row = n then row else replicate n (hd row)) m = m"
    using assms(2) by (intro map_idI) (auto simp: has_shape_def list_all_iff)
  ultimately show ?thesis
    by (simp add: expand_def row_length_has_shape [OF assms(1)])
qed

lemma upt_2: "[0..<2] = [0, 1]"
  by (simp add: upt_rec)

lemmas tensor_defs =
  has_shape_def tmap_def tmap2_def masked_fill_def fill_def full_def ge_broadcast_def sum0_def
  rectangular_def row_length_def expands_to_def expand_def

section \<open>One step of the excitatory population, field by field\<close>

lemma exc_shapes_okD:
  assumes "exc_shapes_ok s x"
  shows "has_shape (length (exc_v s)) (exc_n s) (exc_v s)"
    and "has_shape (length (exc_v s)) (exc_n s) (exc_I s)"
    and "has_shape (length (exc_v s)) (exc_n s) (exc_X s)"
    and "has_shape (length (exc_v s)) (exc_n s) (exc_refrac_count s)"
    and "length (exc_theta s) = exc_n s"
    and "has_shape (length (exc_v s)) (exc_n s) x"
  using assms by (simp_all add: exc_shapes_ok_def exc_state_ok_def Let_def)

text \<open>A step completes exactly on a state of one shape and an input of that shape.\<close>

lemma exc_forward_shapes:
  assumes "exc_forward s x = Inr (s', sp, x')"
  shows "exc_shapes_ok s x"
  using assms by (simp add: exc_forward_def exc_shapes_ok_def Let_def split: if_splits)

text \<open>On such a state and input the step takes none of the raising paths.\<close>

lemma exc_forward_main:
  assumes "exc_shapes_ok s x"
  shows "exc_forward s x =
     Inr (s\<lparr>exc_v :=
              (let v2 = masked_fill (exc_v_decayed s) (exc_spikes s) (exc_reset s)
               in case exc_lbound s of
                    None \<Rightarrow> v2
                  | Some lb \<Rightarrow> masked_fill v2 (tmap (\<lambda>v. v < lb) v2) lb),
            exc_theta :=
              (if exc_learning s
               then map2 (\<lambda>t k. t + 1 * exc_theta_plus s * k) (exc_theta_decayed s)
                      (sum0 (exc_n s) (exc_spikes s))
               else exc_theta s),
            exc_refrac_count :=
              masked_fill (tmap (\<lambda>r. r - exc_dt s) (exc_refrac_count s)) (exc_spikes s)
                (exc_refrac s),
            exc_I := tmap2 (\<lambda>i x. i + exc_I_decay s * (exc_C s * x - i)) (exc_I s) (exc_X s),
            exc_X := tmap2 (+) (tmap (\<lambda>x. x - exc_X_decay s * x) (exc_X s))
                       (exc_x_masked s x)\<rparr>,
          exc_spikes s, exc_x_masked s x)"
proof -
  let ?m = "tmap (\<lambda>r. r > 0) (exc_refrac_count s)"
  have x: "has_shape (length (exc_v s)) (exc_n s) x"
    and st: "exc_state_ok s"
    using assms by (simp_all add: exc_shapes_ok_def)
  have m: "has_shape (length (exc_v s)) (exc_n s) ?m"
    using exc_shapes_okD(4) [OF assms] by (simp add: has_shape_tmap)
  have e: "expand (length x) (row_length (exc_n s) x) ?m = ?m"
    using x m by (rule expand_same)
  have et: "expands_to (length x) (row_length (exc_n s) x) ?m"
    using x m by (rule expands_to_same)
  have r: "rectangular x"
    using x by (rule has_shape_rectangular)
  show ?thesis
    unfolding exc_forward_def
    using st x e et r
    by (simp add: Let_def exc_spikes_def exc_v_decayed_def exc_theta_decayed_def
        exc_x_masked_def split: option.splits)
qed

lemma exc_forward_total:
  "exc_shapes_ok s x \<Longrightarrow> \<exists>s' sp x'. exc_forward s x = Inr (s', sp, x')"
  using exc_forward_main by blast

lemma exc_forward_spikes:
  "exc_forward s x = Inr (s', sp, x') \<Longrightarrow> sp = exc_spikes s"
  using exc_forward_main [OF exc_forward_shapes] by fastforce

lemma exc_forward_x:
  "exc_forward s x = Inr (s', sp, x') \<Longrightarrow> x' = exc_x_masked s x"
  using exc_forward_main [OF exc_forward_shapes] by fastforce

lemma exc_forward_v:
  assumes "exc_forward s x = Inr (s', sp, x')"
  shows "exc_v s' =
     (let v2 = masked_fill (exc_v_decayed s) sp (exc_reset s)
      in case exc_lbound s of
           None \<Rightarrow> v2
         | Some lb \<Rightarrow> masked_fill v2 (tmap (\<lambda>v. v < lb) v2) lb)"
  using exc_forward_main [OF exc_forward_shapes [OF assms]] assms by auto

lemma exc_forward_theta:
  assumes "exc_forward s x = Inr (s', sp, x')"
  shows "exc_theta s' =
     (if exc_learning s
      then map2 (\<lambda>t k. t + 1 * exc_theta_plus s * k) (exc_theta_decayed s) (sum0 (exc_n s) sp)
      else exc_theta s)"
  using exc_forward_main [OF exc_forward_shapes [OF assms]] assms by auto

lemma exc_forward_refrac_count:
  assumes "exc_forward s x = Inr (s', sp, x')"
  shows "exc_refrac_count s' =
     masked_fill (tmap (\<lambda>r. r - exc_dt s) (exc_refrac_count s)) sp (exc_refrac s)"
  using exc_forward_main [OF exc_forward_shapes [OF assms]] assms by auto

lemma exc_forward_I:
  assumes "exc_forward s x = Inr (s', sp, x')"
  shows "exc_I s' = tmap2 (\<lambda>i x. i + exc_I_decay s * (exc_C s * x - i)) (exc_I s) (exc_X s)"
  using exc_forward_main [OF exc_forward_shapes [OF assms]] assms by auto

lemma exc_forward_X:
  assumes "exc_forward s x = Inr (s', sp, x')"
  shows "exc_X s' = tmap2 (+) (tmap (\<lambda>x. x - exc_X_decay s * x) (exc_X s)) x'"
  using exc_forward_main [OF exc_forward_shapes [OF assms]] assms by auto

lemma has_shape_exc_v_decayed:
  "exc_shapes_ok s x \<Longrightarrow> has_shape (length (exc_v s)) (exc_n s) (exc_v_decayed s)"
  by (simp add: exc_v_decayed_def has_shape_tmap2 exc_shapes_okD)

lemma length_exc_theta_decayed:
  "exc_shapes_ok s x \<Longrightarrow> length (exc_theta_decayed s) = exc_n s"
  by (simp add: exc_theta_decayed_def exc_shapes_okD)

lemma has_shape_exc_spikes:
  "exc_shapes_ok s x \<Longrightarrow> has_shape (length (exc_v s)) (exc_n s) (exc_spikes s)"
  by (simp add: exc_spikes_def has_shape_ge_broadcast has_shape_exc_v_decayed
      length_exc_theta_decayed)

section \<open>The example states, one step on\<close>

lemma exc_forward_example:
  "exc_forward exc_example [[3, 5]] =
     Inr (exc_example\<lparr>exc_v := [[0, -100]],
            exc_theta := [20049999 / 1000000, 19999999 / 1000000],
            exc_refrac_count := [[2, -1 / 2]], exc_I := [[2 / 5, 2 / 5]],
            exc_X := [[19 / 5, 4 / 5]]\<rparr>,
          [[True, False]], [[3, 0]])"
  by (simp add: exc_forward_def exc_state_ok_def exc_example_def tensor_defs upt_2)

text \<open>
  On an input with three entries for two neurons the mask does not broadcast to the
  input: \<^verbatim>\<open>x.masked_fill_\<close> raises after the voltage has been decayed to \<open>-297\<close> and
  before anything is clipped.
\<close>

lemma exc_forward_example_raises:
  "exc_forward exc_example [[3, 5, 7]] =
     Inl (RuntimeError,
          exc_example\<lparr>exc_v := [[198, -297]],
            exc_theta := [19999999 / 1000000, 19999999 / 1000000],
            exc_I := [[2 / 5, 2 / 5]], exc_X := [[4 / 5, 4 / 5]]\<rparr>,
          [[3, 5, 7]])"
  by (simp add: exc_forward_def exc_state_ok_def exc_example_def tensor_defs)

text \<open>
  On an input of two rows for a state of one batch element the mask does broadcast:
  both rows of the input are masked and the counter is lowered before
  \<^verbatim>\<open>self.X += x\<close> raises.
\<close>

lemma exc_forward_example_raises_late:
  "exc_forward exc_example [[3, 5], [7, 9]] =
     Inl (RuntimeError,
          exc_example\<lparr>exc_v := [[198, -297]],
            exc_theta := [19999999 / 1000000, 19999999 / 1000000],
            exc_refrac_count := [[-1, -1 / 2]],
            exc_I := [[2 / 5, 2 / 5]], exc_X := [[4 / 5, 4 / 5]]\<rparr>,
          [[3, 0], [7, 0]])"
  by (simp add: exc_forward_def exc_state_ok_def exc_example_def tensor_defs numeral_2_eq_2
      Let_def)

section \<open>A run that overflows\<close>

lemma half_powr_minus_2: "(1 / 2 :: real) powr (- 2) = 4"
  by (simp add: powr_minus power2_eq_square field_simps)

text \<open>The population of one neuron as the three class operations leave it.\<close>

lemma exc_built_eq:
  "exc_built = \<lparr>exc_n = 1, exc_dt = 1, exc_learning = True,
     exc_rest = 0, exc_reset = 0, exc_thresh = 120, exc_refrac = 2,
     exc_tc_decay = 4, exc_decay = 1 / 4,
     exc_theta_plus = 1 / 16, exc_tc_theta_decay = 16, exc_theta_decay = 1 / 16,
     exc_v = [[0]], exc_theta = [20], exc_refrac_count = [[0]],
     exc_I = [[0]], exc_X = [[0]],
     exc_tau_inc = 2, exc_tau_dec = 1, exc_I_decay = 1 / 2, exc_X_decay = 1,
     exc_C = 4, exc_R = 32, exc_lbound = Some (-100)\<rparr>"
  by (simp add: exc_built_def QuintanaExcNodes_init_def exc_compute_decays_def
      exc_set_batch_size_def exc_float_args_def tmap_def full_def half_powr_minus_2 Let_def)

lemma exc_float_0_eq:
  "exc_float_0 = \<lparr>exc_n = 1, exc_dt = Finite 1, exc_learning = True,
     exc_rest = Finite 0, exc_reset = Finite 0, exc_thresh = Finite 120,
     exc_refrac = Finite 2, exc_tc_decay = Finite 4, exc_decay = Finite (1 / 4),
     exc_theta_plus = Finite (1 / 16), exc_tc_theta_decay = Finite 16,
     exc_theta_decay = Finite (1 / 16),
     exc_v = [[Finite 0]], exc_theta = [Finite 20], exc_refrac_count = [[Finite 0]],
     exc_I = [[Finite 0]], exc_X = [[Finite 0]],
     exc_tau_inc = Finite 2, exc_tau_dec = Finite 1, exc_I_decay = Finite (1 / 2),
     exc_X_decay = Finite 1, exc_C = Finite 4, exc_R = Finite 32,
     exc_lbound = Some (Finite (-100))\<rparr>"
  by (simp add: exc_float_0_def exc_to_fl_def exc_built_eq tmap_def)

lemmas fl_defs = zero_fl_def one_fl_def minus_fl_def overflow_def

text \<open>
  Four steps on the input \<open>2 ^ 127\<close>. In the second step \<open>C * X = 4 * 2 ^ 127\<close>
  overflows and \<open>I\<close> becomes infinite; in the third the voltage becomes infinite, the
  neuron spikes and is reset, and \<open>C * X - I\<close> is \<open>inf - inf\<close>, so that \<open>I\<close> becomes
  NaN; in the fourth \<open>R * I\<close> makes the voltage NaN, which is neither at or above the
  threshold nor below the lower bound. Every finite value on the way is a float: the
  thresholds \<open>75 / 4\<close>, \<open>1125 / 64\<close>, \<open>16875 / 1024\<close>, \<open>16939 / 1024\<close> and
  \<open>254085 / 16384\<close> have numerators below \<open>2 ^ 24\<close> over powers of two.
\<close>

lemma exc_forward_float_1:
  "exc_forward exc_float_0 [[Finite (2 ^ 127)]] =
     Inr (exc_float_1, [[False]], [[Finite (2 ^ 127)]])"
  by (simp add: exc_forward_def exc_state_ok_def exc_float_1_def exc_float_0_eq tensor_defs
      fl_defs Let_def)

lemma exc_forward_float_2:
  "exc_forward exc_float_1 [[Finite (2 ^ 127)]] =
     Inr (exc_float_2, [[False]], [[Finite (2 ^ 127)]])"
  by (simp add: exc_forward_def exc_state_ok_def exc_float_1_def exc_float_2_def
      exc_float_0_eq tensor_defs fl_defs Let_def)

lemma exc_forward_float_3:
  "exc_forward exc_float_2 [[Finite (2 ^ 127)]] =
     Inr (exc_float_3, [[True]], [[Finite (2 ^ 127)]])"
  by (simp add: exc_forward_def exc_state_ok_def exc_float_2_def exc_float_3_def
      exc_float_0_eq tensor_defs fl_defs Let_def)

lemma exc_forward_float_4:
  "exc_forward exc_float_3 [[Finite (2 ^ 127)]] =
     Inr (exc_float_4, [[False]], [[Finite 0]])"
  by (simp add: exc_forward_def exc_state_ok_def exc_float_3_def exc_float_4_def
      exc_float_0_eq tensor_defs fl_defs Let_def)

section \<open>Claims about the excitatory population\<close>

text \<open>What the clip that ends a step leaves, for every type of entries.\<close>

lemma exc_forward_clipped:
  assumes "exc_forward s x = Inr (s', sp, x')" and "exc_lbound s = Some lb"
  shows "has_shape (length (exc_v s)) (exc_n s) (exc_v s')"
    and "\<exists>v2. exc_v s' = masked_fill v2 (tmap (\<lambda>v. v < lb) v2) lb"
proof -
  let ?v2 = "masked_fill (exc_v_decayed s) sp (exc_reset s)"
  have v: "exc_v s' = masked_fill ?v2 (tmap (\<lambda>v. v < lb) ?v2) lb"
    using exc_forward_v [OF assms(1)] assms(2) by (simp add: Let_def)
  have ok: "exc_shapes_ok s x"
    using assms(1) by (rule exc_forward_shapes)
  have "has_shape (length (exc_v s)) (exc_n s) ?v2"
    using has_shape_exc_v_decayed [OF ok] has_shape_exc_spikes [OF ok]
      exc_forward_spikes [OF assms(1)]
    by (simp add: has_shape_masked_fill)
  then show "has_shape (length (exc_v s)) (exc_n s) (exc_v s')"
    by (simp add: v has_shape_masked_fill has_shape_tmap)
  show "\<exists>v2. exc_v s' = masked_fill v2 (tmap (\<lambda>v. v < lb) v2) lb"
    using v by blast
qed

text \<open>
  C1, as the code has it. With a lower bound \<open>lb\<close> configured, after every call of
  \<^verbatim>\<open>forward\<close> that returns, whatever the input and the state before the step were,
  the voltage tensor has its shape and no entry of it is below \<open>lb\<close>: the comparison
  \<open>v < lb\<close> of the clip is false for every neuron in every batch element. This holds
  for every type of entries and every arithmetic on it, provided only that \<open>lb < lb\<close>
  is false, as it is for every float. For entries that are numbers it says that each
  is at least \<open>lb\<close>; a NaN is not below \<open>lb\<close> either, passes the clip and stays.
\<close>

theorem exc_forward_v_not_below_lbound:
  fixes s :: "('a::{zero,one,plus,minus,times,ord}) exc_nodes"
  assumes "exc_forward s x = Inr (s', sp, x')" and "exc_lbound s = Some lb"
    and "\<not> lb < lb"
  shows "has_shape (length (exc_v s)) (exc_n s) (exc_v s') \<and>
         (\<forall>row \<in> set (exc_v s'). \<forall>a \<in> set row. \<not> a < lb)"
proof -
  from exc_forward_clipped(2) [OF assms(1,2)]
  obtain v2 where v: "exc_v s' = masked_fill v2 (tmap (\<lambda>v. v < lb) v2) lb" ..
  have "\<forall>row \<in> set (exc_v s'). \<forall>a \<in> set row. \<not> a < lb"
    unfolding v using masked_fill_not_below assms(3) by blast
  with exc_forward_clipped(1) [OF assms(1,2)] show ?thesis by simp
qed

theorem exc_forward_v_not_below_lbound_witness:
  "exc_forward exc_example [[3, 5]] =
     Inr (exc_example\<lparr>exc_v := [[0, -100]],
            exc_theta := [20049999 / 1000000, 19999999 / 1000000],
            exc_refrac_count := [[2, -1 / 2]], exc_I := [[2 / 5, 2 / 5]],
            exc_X := [[19 / 5, 4 / 5]]\<rparr>,
          [[True, False]], [[3, 0]]) \<and>
   exc_lbound exc_example = Some (-100) \<and>
   \<not> (-100 :: real) < -100 \<and>
   has_shape 1 2 [[0, -100 :: real]] \<and>
   list_all (list_all (\<lambda>a. \<not> a < -100)) [[0, -100 :: real]] \<and>
   exc_forward exc_float_3 [[Finite (2 ^ 127)]] =
     Inr (exc_float_4, [[False]], [[Finite 0]]) \<and>
   exc_lbound exc_float_3 = Some (Finite (-100)) \<and>
   \<not> Finite (-100) < Finite (-100) \<and>
   list_all (list_all (\<lambda>a. \<not> a < Finite (-100))) (exc_v exc_float_4)"
proof -
  have lb: "exc_lbound exc_example = Some (-100)"
    by (simp add: exc_example_def)
  have irr: "\<not> (-100 :: real) < -100"
    by simp
  have lb': "exc_lbound exc_float_3 = Some (Finite (-100))"
    by (simp add: exc_float_3_def exc_float_0_eq)
  have irr': "\<not> Finite (-100) < Finite (-100)"
    by simp
  show ?thesis
    using exc_forward_v_not_below_lbound [OF exc_forward_example lb irr]
      exc_forward_v_not_below_lbound [OF exc_forward_float_4 lb' irr']
      exc_forward_example exc_forward_float_4 lb lb'
    by (simp add: exc_example_def exc_float_4_def exc_float_0_eq has_shape_def)
qed

text \<open>
  The claim of C1 as the specification states it, that every entry of \<open>v\<close> is at least
  the lower bound whatever the input, fails on floats. The population of one neuron,
  constructed and set up by the class operations and driven with the finite input
  \<open>2 ^ 127\<close>, has the voltage NaN after its fourth step, and \<open>-100 \<le> NaN\<close> is false.
\<close>

theorem exc_forward_v_nan_after_overflow:
  "exc_float_0 = exc_to_fl exc_built \<and>
   exc_lbound exc_float_0 = Some (Finite (-100)) \<and>
   exc_forward exc_float_0 [[Finite (2 ^ 127)]] =
     Inr (exc_float_1, [[False]], [[Finite (2 ^ 127)]]) \<and>
   exc_forward exc_float_1 [[Finite (2 ^ 127)]] =
     Inr (exc_float_2, [[False]], [[Finite (2 ^ 127)]]) \<and>
   exc_forward exc_float_2 [[Finite (2 ^ 127)]] =
     Inr (exc_float_3, [[True]], [[Finite (2 ^ 127)]]) \<and>
   exc_forward exc_float_3 [[Finite (2 ^ 127)]] =
     Inr (exc_float_4, [[False]], [[Finite 0]]) \<and>
   exc_lbound exc_float_4 = Some (Finite (-100)) \<and>
   exc_v exc_float_4 = [[NaN]] \<and>
   \<not> Finite (-100) \<le> exc_v exc_float_4 ! 0 ! 0"
  using exc_forward_float_1 exc_forward_float_2 exc_forward_float_3 exc_forward_float_4
  by (simp add: exc_float_0_def [symmetric] exc_float_4_def exc_float_0_eq)

text \<open>
  In a linear order, such as the reals, no entry below the bound means every entry at
  least the bound; on the float values it means every entry at least the bound or NaN,
  for a bound that is not NaN itself.
\<close>

lemma exc_forward_v_lower_bound_linorder:
  fixes s :: "('a::{zero,one,plus,minus,times,linorder}) exc_nodes"
  assumes "exc_forward s x = Inr (s', sp, x')" and "exc_lbound s = Some lb"
  shows "\<forall>row \<in> set (exc_v s'). \<forall>a \<in> set row. lb \<le> a"
proof -
  from exc_forward_clipped(2) [OF assms]
  obtain v2 where v: "exc_v s' = masked_fill v2 (tmap (\<lambda>v. v < lb) v2) lb" ..
  show ?thesis
    unfolding v using masked_fill_lower by blast
qed

lemma fl_not_below:
  fixes a lb :: fl
  assumes "\<not> a < lb" and "lb \<noteq> NaN"
  shows "a = NaN \<or> lb \<le> a"
  using assms by (cases a; cases lb) auto

lemma exc_forward_v_lower_bound_fl:
  fixes s :: "fl exc_nodes"
  assumes "exc_forward s x = Inr (s', sp, x')" and "exc_lbound s = Some lb"
    and "lb \<noteq> NaN"
  shows "\<forall>row \<in> set (exc_v s'). \<forall>a \<in> set row. a = NaN \<or> lb \<le> a"
proof -
  from exc_forward_clipped(2) [OF assms(1,2)]
  obtain v2 where v: "exc_v s' = masked_fill v2 (tmap (\<lambda>v. v < lb) v2) lb" ..
  have irr: "\<not> lb < lb"
    by (cases lb) simp_all
  have "\<forall>row \<in> set (exc_v s'). \<forall>a \<in> set row. \<not> a < lb"
    unfolding v using masked_fill_not_below irr by blast
  then show ?thesis
    using fl_not_below assms(3) by blast
qed

text \<open>
  C2. After \<^verbatim>\<open>reset_state_variables\<close> the four batched tensors have the shapes they
  had, every entry of \<open>v\<close> is the resting voltage, every entry of \<open>X\<close>, of \<open>I\<close> and of
  the refractory counter is zero, and \<open>theta\<close> is what it was before the reset.
\<close>

theorem exc_reset_state_variables_resets:
  fixes s :: "real exc_nodes"
  shows
  "map length (exc_v (exc_reset_state_variables s)) = map length (exc_v s) \<and>
   map length (exc_X (exc_reset_state_variables s)) = map length (exc_X s) \<and>
   map length (exc_I (exc_reset_state_variables s)) = map length (exc_I s) \<and>
   map length (exc_refrac_count (exc_reset_state_variables s)) =
     map length (exc_refrac_count s) \<and>
   (\<forall>row \<in> set (exc_v (exc_reset_state_variables s)). \<forall>a \<in> set row. a = exc_rest s) \<and>
   (\<forall>row \<in> set (exc_X (exc_reset_state_variables s)). \<forall>a \<in> set row. a = 0) \<and>
   (\<forall>row \<in> set (exc_I (exc_reset_state_variables s)). \<forall>a \<in> set row. a = 0) \<and>
   (\<forall>row \<in> set (exc_refrac_count (exc_reset_state_variables s)). \<forall>a \<in> set row. a = 0) \<and>
   exc_theta (exc_reset_state_variables s) = exc_theta s"
  by (auto simp: exc_reset_state_variables_def fill_def tmap_def)

theorem exc_reset_state_variables_resets_witness:
  "exc_v (exc_reset_state_variables exc_example_rest) = [[-65, -65]] \<and>
   exc_X (exc_reset_state_variables exc_example_rest) = [[0, 0]] \<and>
   exc_I (exc_reset_state_variables exc_example_rest) = [[0, 0]] \<and>
   exc_refrac_count (exc_reset_state_variables exc_example_rest) = [[0, 0]] \<and>
   exc_theta (exc_reset_state_variables exc_example_rest) = [20, 20] \<and>
   exc_v exc_example_rest = [[200, -300]] \<and>
   exc_refrac_count exc_example_rest = [[0, 1 / 2]]"
  using exc_reset_state_variables_resets [of exc_example_rest]
  by (simp add: exc_reset_state_variables_def exc_example_rest_def exc_example_def fill_def
      tmap_def)

text \<open>
  C4, as the code has it. Neither constructor looks at the time constants: for all
  arguments, equal rise and decay constants among them, it returns the population with
  \<open>tau_inc\<close> and \<open>tau_dec\<close> stored as given. The quotient by \<open>tau_dec - tau_inc\<close> is
  formed later, in \<^verbatim>\<open>compute_decays\<close>, without a guard.
\<close>

theorem init_accepts_all_time_constants:
  "(\<exists>s. QuintanaExcNodes_init n dt learning u a = Inr s \<and>
        exc_tau_inc s = arg_tau_inc a \<and> exc_tau_dec s = arg_tau_dec a) \<and>
   (\<exists>s. QuintanaSLNodes_init n dt learning u' a' = Inr s \<and>
        sl_tau_inc s = sarg_tau_inc a' \<and> sl_tau_dec s = sarg_tau_dec a')"
  by (simp add: QuintanaExcNodes_init_def QuintanaSLNodes_init_def)

text \<open>
  The claim of C4 as the specification states it, that equal time constants are rejected
  at construction, fails: with \<open>tau_inc = tau_dec = 5\<close> both constructors return a
  population and no error.
\<close>

theorem init_equal_taus_not_rejected:
  "arg_tau_dec exc_equal_taus = arg_tau_inc exc_equal_taus \<and>
   \<not> isl (QuintanaExcNodes_init 2 1 True unset_zero exc_equal_taus) \<and>
   sarg_tau_dec sl_equal_taus = sarg_tau_inc sl_equal_taus \<and>
   \<not> isl (QuintanaSLNodes_init 2 1 True unset_zero sl_equal_taus)"
  by (simp add: QuintanaExcNodes_init_def QuintanaSLNodes_init_def exc_equal_taus_def
      sl_equal_taus_def)

text \<open>
  C10. The constructor sets \<open>theta\<close> to 20 for each of the \<open>n\<close> neurons, so that
  \<open>thresh + theta\<close> is \<open>thresh + 20\<close> for each of them. \<^verbatim>\<open>reset_state_variables\<close>,
  \<^verbatim>\<open>set_batch_size\<close> and \<^verbatim>\<open>compute_decays\<close> leave \<open>theta\<close> as it is, and after a
  step \<open>theta\<close> still has one entry per neuron, whatever the batch size.
\<close>

theorem exc_theta_initial_and_unbatched:
  fixes s :: "real exc_nodes"
  shows
  "(\<exists>s0. QuintanaExcNodes_init n dt learning u a = Inr s0 \<and>
         exc_theta s0 = replicate n 20 \<and>
         map (\<lambda>t. exc_thresh s0 + t) (exc_theta s0) = replicate n (arg_thresh a + 20)) \<and>
   exc_theta (exc_reset_state_variables s) = exc_theta s \<and>
   exc_theta (exc_set_batch_size s batch_size) = exc_theta s \<and>
   exc_theta (exc_compute_decays s dt') = exc_theta s \<and>
   (exc_forward s x = Inr (s', sp, x') \<longrightarrow>
      length (exc_theta s) = exc_n s \<and> length (exc_theta s') = exc_n s)"
proof -
  have init: "\<exists>s0. QuintanaExcNodes_init n dt learning u a = Inr s0 \<and>
         exc_theta s0 = replicate n 20 \<and>
         map (\<lambda>t. exc_thresh s0 + t) (exc_theta s0) = replicate n (arg_thresh a + 20)"
    by (simp add: QuintanaExcNodes_init_def)
  have frame: "exc_theta (exc_reset_state_variables s) = exc_theta s"
    "exc_theta (exc_set_batch_size s batch_size) = exc_theta s"
    "exc_theta (exc_compute_decays s dt') = exc_theta s"
    by (simp_all add: exc_reset_state_variables_def exc_set_batch_size_def
        exc_compute_decays_def Let_def)
  have step: "length (exc_theta s) = exc_n s \<and> length (exc_theta s') = exc_n s"
    if fw: "exc_forward s x = Inr (s', sp, x')"
  proof -
    have ok: "exc_shapes_ok s x"
      using fw by (rule exc_forward_shapes)
    then have len: "length (exc_theta s) = exc_n s"
      by (rule exc_shapes_okD)
    have "length (exc_theta s') = exc_n s"
      using exc_forward_theta [OF fw] length_exc_theta_decayed [OF ok] len
      by (simp add: sum0_def split: if_splits)
    with len show ?thesis by simp
  qed
  from init frame step show ?thesis by blast
qed

theorem exc_theta_initial_and_unbatched_witness:
  "QuintanaExcNodes_init 2 1 True unset_zero exc_defaults \<noteq> Inl RuntimeError \<and>
   exc_theta (exc_reset_state_variables exc_example) = [20, 20] \<and>
   exc_theta (exc_set_batch_size exc_example 3) = [20, 20] \<and>
   exc_theta (exc_compute_decays exc_example 1) = [20, 20] \<and>
   exc_forward exc_example [[3, 5]] =
     Inr (exc_example\<lparr>exc_v := [[0, -100]],
            exc_theta := [20049999 / 1000000, 19999999 / 1000000],
            exc_refrac_count := [[2, -1 / 2]], exc_I := [[2 / 5, 2 / 5]],
            exc_X := [[19 / 5, 4 / 5]]\<rparr>,
          [[True, False]], [[3, 0]]) \<and>
   length (exc_theta exc_example) = exc_n exc_example \<and>
   length [20049999 / 1000000, 19999999 / 1000000 :: real] = exc_n exc_example"
  using exc_theta_initial_and_unbatched [of 2 1 True unset_zero exc_defaults exc_example 3 1
      "[[3, 5]]" "exc_example\<lparr>exc_v := [[0, -100]],
            exc_theta := [20049999 / 1000000, 19999999 / 1000000],
            exc_refrac_count := [[2, -1 / 2]], exc_I := [[2 / 5, 2 / 5]],
            exc_X := [[19 / 5, 4 / 5]]\<rparr>" "[[True, False]]" "[[3, 0]]"]
    exc_forward_example
  by (auto simp: exc_example_def)


section \<open>The entries of a step\<close>

lemma exc_v_decayed_nth:
  assumes "exc_shapes_ok s x" and "b < length (exc_v s)" and "i < exc_n s"
  shows "exc_v_decayed s ! b ! i =
         exc_v s ! b ! i +
           exc_decay s * (exc_rest s - exc_v s ! b ! i + exc_R s * exc_I s ! b ! i)"
  unfolding exc_v_decayed_def
  using assms exc_shapes_okD(1,2) [OF assms(1)] by (simp add: tmap2_nth)

lemma exc_theta_decayed_nth:
  assumes "exc_shapes_ok s x" and "i < exc_n s"
  shows "exc_theta_decayed s ! i =
         (if exc_learning s then exc_theta s ! i - exc_theta_decay s * exc_theta s ! i
          else exc_theta s ! i)"
  using assms(2) exc_shapes_okD(5) [OF assms(1)] by (simp add: exc_theta_decayed_def)

lemma exc_spikes_nth:
  assumes "exc_shapes_ok s x" and "b < length (exc_v s)" and "i < exc_n s"
  shows "exc_spikes s ! b ! i \<longleftrightarrow>
         exc_v_decayed s ! b ! i \<ge> exc_thresh s + exc_theta_decayed s ! i"
proof -
  have len: "length (map (\<lambda>t. exc_thresh s + t) (exc_theta_decayed s)) = exc_n s"
    using length_exc_theta_decayed [OF assms(1)] by simp
  show ?thesis
    unfolding exc_spikes_def
    using ge_broadcast_nth [OF has_shape_exc_v_decayed [OF assms(1)] len assms(2,3)]
      assms(3) length_exc_theta_decayed [OF assms(1)]
    by simp
qed

lemma exc_x_masked_nth:
  assumes "exc_shapes_ok s x" and "b < length (exc_v s)" and "i < exc_n s"
  shows "exc_x_masked s x ! b ! i = (if 0 < exc_refrac_count s ! b ! i then 0 else x ! b ! i)"
proof -
  let ?B = "length (exc_v s)" and ?n = "exc_n s"
  have rc: "has_shape ?B ?n (exc_refrac_count s)" and x: "has_shape ?B ?n x"
    using exc_shapes_okD [OF assms(1)] by simp_all
  have m: "has_shape ?B ?n (tmap (\<lambda>r. r > 0) (exc_refrac_count s))"
    using rc by (simp add: has_shape_tmap)
  show ?thesis
    unfolding exc_x_masked_def
    by (simp add: masked_fill_nth [OF x m assms(2,3)] tmap_nth [OF rc assms(2,3)])
qed

lemma has_shape_exc_x_masked:
  assumes "exc_shapes_ok s x"
  shows "has_shape (length (exc_v s)) (exc_n s) (exc_x_masked s x)"
  unfolding exc_x_masked_def
  using exc_shapes_okD [OF assms] by (simp add: has_shape_masked_fill has_shape_tmap)

lemma exc_forward_v_nth:
  assumes fw: "exc_forward s x = Inr (s', sp, x')"
    and b: "b < length (exc_v s)" and i: "i < exc_n s"
  shows "exc_v s' ! b ! i =
         (let v2 = (if sp ! b ! i then exc_reset s else exc_v_decayed s ! b ! i)
          in case exc_lbound s of
               None \<Rightarrow> v2
             | Some lb \<Rightarrow> if v2 < lb then lb else v2)"
proof -
  let ?B = "length (exc_v s)" and ?n = "exc_n s"
  let ?v2 = "masked_fill (exc_v_decayed s) sp (exc_reset s)"
  have ok: "exc_shapes_ok s x"
    using fw by (rule exc_forward_shapes)
  have sp: "has_shape ?B ?n sp"
    using has_shape_exc_spikes [OF ok] exc_forward_spikes [OF fw] by simp
  have vd: "has_shape ?B ?n (exc_v_decayed s)"
    using ok by (rule has_shape_exc_v_decayed)
  have v2: "has_shape ?B ?n ?v2"
    using vd sp by (rule has_shape_masked_fill)
  have v2n: "?v2 ! b ! i = (if sp ! b ! i then exc_reset s else exc_v_decayed s ! b ! i)"
    using vd sp b i by (rule masked_fill_nth)
  show ?thesis
  proof (cases "exc_lbound s")
    case None
    then show ?thesis
      using exc_forward_v [OF fw] v2n by (simp add: Let_def)
  next
    case (Some lb)
    have m: "has_shape ?B ?n (tmap (\<lambda>v. v < lb) ?v2)"
      using v2 by (simp add: has_shape_tmap)
    have "exc_v s' = masked_fill ?v2 (tmap (\<lambda>v. v < lb) ?v2) lb"
      using exc_forward_v [OF fw] Some by (simp add: Let_def)
    then have "exc_v s' ! b ! i = (if ?v2 ! b ! i < lb then lb else ?v2 ! b ! i)"
      by (simp add: masked_fill_nth [OF v2 m b i] tmap_nth [OF v2 b i])
    then show ?thesis
      using Some v2n by (simp add: Let_def)
  qed
qed

lemma exc_forward_refrac_count_nth:
  assumes fw: "exc_forward s x = Inr (s', sp, x')"
    and b: "b < length (exc_v s)" and i: "i < exc_n s"
  shows "exc_refrac_count s' ! b ! i =
         (if sp ! b ! i then exc_refrac s else exc_refrac_count s ! b ! i - exc_dt s)"
proof -
  let ?B = "length (exc_v s)" and ?n = "exc_n s"
  have ok: "exc_shapes_ok s x"
    using fw by (rule exc_forward_shapes)
  have sp: "has_shape ?B ?n sp"
    using has_shape_exc_spikes [OF ok] exc_forward_spikes [OF fw] by simp
  have rc: "has_shape ?B ?n (exc_refrac_count s)"
    using exc_shapes_okD [OF ok] by simp
  have rc1: "has_shape ?B ?n (tmap (\<lambda>r. r - exc_dt s) (exc_refrac_count s))"
    using rc by (simp add: has_shape_tmap)
  show ?thesis
    using exc_forward_refrac_count [OF fw]
    by (simp add: masked_fill_nth [OF rc1 sp b i] tmap_nth [OF rc b i])
qed

lemma exc_forward_X_nth:
  assumes fw: "exc_forward s x = Inr (s', sp, x')"
    and b: "b < length (exc_v s)" and i: "i < exc_n s"
  shows "exc_X s' ! b ! i =
         exc_X s ! b ! i - exc_X_decay s * exc_X s ! b ! i + x' ! b ! i"
proof -
  let ?B = "length (exc_v s)" and ?n = "exc_n s"
  have ok: "exc_shapes_ok s x"
    using fw by (rule exc_forward_shapes)
  have X: "has_shape ?B ?n (exc_X s)"
    using exc_shapes_okD [OF ok] by simp
  have X1: "has_shape ?B ?n (tmap (\<lambda>x. x - exc_X_decay s * x) (exc_X s))"
    using X by (simp add: has_shape_tmap)
  have x': "has_shape ?B ?n x'"
    using has_shape_exc_x_masked [OF ok] exc_forward_x [OF fw] by simp
  show ?thesis
    using exc_forward_X [OF fw]
    by (simp add: tmap2_nth [OF X1 x' b i] tmap_nth [OF X b i])
qed

text \<open>
  The new threshold of a neuron in learning mode, for every type of entries: the decayed
  threshold plus \<open>1 * theta_plus\<close> times the sum of the spike indicators over the batch,
  in the arithmetic of the entries.
\<close>

lemma exc_forward_theta_nth_any:
  assumes fw: "exc_forward s x = Inr (s', sp, x')" and i: "i < exc_n s"
    and l: "exc_learning s"
  shows "exc_theta s' ! i =
         (exc_theta s ! i - exc_theta_decay s * exc_theta s ! i) +
           1 * exc_theta_plus s * foldr (+) (map (\<lambda>row. if row ! i then 1 else 0) sp) 0"
proof -
  have ok: "exc_shapes_ok s x"
    using fw by (rule exc_forward_shapes)
  have len: "length (exc_theta_decayed s) = exc_n s"
    using ok by (rule length_exc_theta_decayed)
  have "exc_theta s' =
      map2 (\<lambda>t k. t + 1 * exc_theta_plus s * k) (exc_theta_decayed s) (sum0 (exc_n s) sp)"
    using exc_forward_theta [OF fw] l by simp
  then have "exc_theta s' ! i =
      exc_theta_decayed s ! i + 1 * exc_theta_plus s * sum0 (exc_n s) sp ! i"
    using i len by (simp add: sum0_def)
  then show ?thesis
    using l exc_theta_decayed_nth [OF ok i] i by (simp add: sum0_def)
qed



section \<open>More steps of the example states\<close>



lemma exc_forward_example_low_reset:
  "exc_forward exc_example_low_reset [[3, 5]] =
     Inr (exc_example_low_reset\<lparr>exc_v := [[-60, -60]],
            exc_theta := [20049999 / 1000000, 19999999 / 1000000],
            exc_refrac_count := [[2, -1 / 2]], exc_I := [[2 / 5, 2 / 5]],
            exc_X := [[19 / 5, 4 / 5]]\<rparr>,
          [[True, False]], [[3, 0]])"
  by (simp add: exc_forward_def exc_state_ok_def exc_example_low_reset_def exc_example_def
      tensor_defs upt_2)

section \<open>Spikes, refractoriness and the input gate\<close>

text \<open>
  C6, as the code has it. In every step the spike indicator of a neuron in a batch
  element is \<open>v \<ge> thresh + theta\<close>, read after the voltage update of the step (and, in
  learning mode, after the decay of \<open>theta\<close>). Where it is set, the refractory counter
  after the step is \<open>refrac\<close>, and the voltage after the step is the reset voltage when
  no lower bound is configured or the reset voltage is not below it; with a lower bound
  above the reset voltage the clipping that ends the step leaves the lower bound there.
\<close>

theorem exc_forward_spike_and_reset:
  fixes s :: "real exc_nodes"
  assumes "exc_forward s x = Inr (s', sp, x')"
    and "b < length (exc_v s)" and "i < exc_n s"
  shows "(sp ! b ! i \<longleftrightarrow>
            exc_v s ! b ! i +
              exc_decay s * (exc_rest s - exc_v s ! b ! i + exc_R s * exc_I s ! b ! i)
            \<ge> exc_thresh s +
              (if exc_learning s then exc_theta s ! i - exc_theta_decay s * exc_theta s ! i
               else exc_theta s ! i)) \<and>
         (sp ! b ! i \<longrightarrow>
            exc_refrac_count s' ! b ! i = exc_refrac s \<and>
            exc_v s' ! b ! i =
              (case exc_lbound s of
                 None \<Rightarrow> exc_reset s
               | Some lb \<Rightarrow> if exc_reset s < lb then lb else exc_reset s))"
proof -
  have ok: "exc_shapes_ok s x"
    using assms(1) by (rule exc_forward_shapes)
  have "sp ! b ! i \<longleftrightarrow> exc_v_decayed s ! b ! i \<ge> exc_thresh s + exc_theta_decayed s ! i"
    using exc_spikes_nth [OF ok assms(2,3)] exc_forward_spikes [OF assms(1)] by simp
  then have spike: "sp ! b ! i \<longleftrightarrow>
      exc_v s ! b ! i +
        exc_decay s * (exc_rest s - exc_v s ! b ! i + exc_R s * exc_I s ! b ! i)
      \<ge> exc_thresh s +
        (if exc_learning s then exc_theta s ! i - exc_theta_decay s * exc_theta s ! i
         else exc_theta s ! i)"
    by (simp only: exc_v_decayed_nth [OF ok assms(2,3)] exc_theta_decayed_nth [OF ok assms(3)])
  have after: "exc_refrac_count s' ! b ! i = exc_refrac s \<and>
      exc_v s' ! b ! i =
        (case exc_lbound s of
           None \<Rightarrow> exc_reset s
         | Some lb \<Rightarrow> if exc_reset s < lb then lb else exc_reset s)"
    if "sp ! b ! i"
    using that exc_forward_refrac_count_nth [OF assms] exc_forward_v_nth [OF assms]
    by (simp add: Let_def)
  from spike after show ?thesis by blast
qed

theorem exc_forward_spike_and_reset_witness:
  "exc_forward exc_example [[3, 5]] =
     Inr (exc_example\<lparr>exc_v := [[0, -100]],
            exc_theta := [20049999 / 1000000, 19999999 / 1000000],
            exc_refrac_count := [[2, -1 / 2]], exc_I := [[2 / 5, 2 / 5]],
            exc_X := [[19 / 5, 4 / 5]]\<rparr>,
          [[True, False]], [[3, 0]]) \<and>
   (0::nat) < length (exc_v exc_example) \<and> 0 < exc_n exc_example \<and>
   [[True, False]] ! 0 ! 0 \<and>
   [[2, -1 / 2 :: real]] ! 0 ! 0 = exc_refrac exc_example \<and>
   [[0, -100 :: real]] ! 0 ! 0 = exc_reset exc_example"
proof -
  have b: "0 < length (exc_v exc_example)" and i: "0 < exc_n exc_example"
    by (simp_all add: exc_example_def)
  show ?thesis
    using exc_forward_spike_and_reset [OF exc_forward_example b i] exc_forward_example
    by (simp add: exc_example_def)
qed

text \<open>
  The claim of C6 as the specification states it fails where the reset voltage is below
  the lower bound: with a reset voltage of \<open>-65\<close> and a lower bound of \<open>-60\<close>, neuron 0
  spikes and its voltage after the step is \<open>-60\<close>.
\<close>

theorem exc_forward_spike_not_at_reset:
  "exc_forward exc_example_low_reset [[3, 5]] =
     Inr (exc_example_low_reset\<lparr>exc_v := [[-60, -60]],
            exc_theta := [20049999 / 1000000, 19999999 / 1000000],
            exc_refrac_count := [[2, -1 / 2]], exc_I := [[2 / 5, 2 / 5]],
            exc_X := [[19 / 5, 4 / 5]]\<rparr>,
          [[True, False]], [[3, 0]]) \<and>
   [[True, False]] ! 0 ! 0 \<and>
   [[-60, -60 :: real]] ! 0 ! 0 \<noteq> exc_reset exc_example_low_reset"
  using exc_forward_example_low_reset
  by (simp add: exc_example_low_reset_def exc_example_def)

text \<open>
  C7. Where the refractory counter is positive at the start of a step, the input entry
  is set to zero before it is added to \<open>X\<close>, so that \<open>X\<close> only decays there; elsewhere
  the input entry is added as it is. The counter is then lowered by \<open>dt\<close>, below zero
  when it was less than \<open>dt\<close>, and keeps that value unless the neuron spikes in the
  step.
\<close>

theorem exc_forward_refractory_gate:
  fixes s :: "real exc_nodes"
  assumes "exc_forward s x = Inr (s', sp, x')"
    and "b < length (exc_v s)" and "i < exc_n s"
  shows "(0 < exc_refrac_count s ! b ! i \<longrightarrow>
            x' ! b ! i = 0 \<and>
            exc_X s' ! b ! i = exc_X s ! b ! i - exc_X_decay s * exc_X s ! b ! i) \<and>
         (\<not> 0 < exc_refrac_count s ! b ! i \<longrightarrow>
            x' ! b ! i = x ! b ! i \<and>
            exc_X s' ! b ! i =
              exc_X s ! b ! i - exc_X_decay s * exc_X s ! b ! i + x ! b ! i) \<and>
         exc_refrac_count s' ! b ! i =
           (if sp ! b ! i then exc_refrac s else exc_refrac_count s ! b ! i - exc_dt s)"
proof -
  have ok: "exc_shapes_ok s x"
    using assms(1) by (rule exc_forward_shapes)
  have x': "x' ! b ! i = (if 0 < exc_refrac_count s ! b ! i then 0 else x ! b ! i)"
    using exc_x_masked_nth [OF ok assms(2,3)] exc_forward_x [OF assms(1)] by simp
  show ?thesis
    using x' exc_forward_X_nth [OF assms] exc_forward_refrac_count_nth [OF assms]
    by simp
qed

theorem exc_forward_refractory_gate_witness:
  "exc_forward exc_example [[3, 5]] =
     Inr (exc_example\<lparr>exc_v := [[0, -100]],
            exc_theta := [20049999 / 1000000, 19999999 / 1000000],
            exc_refrac_count := [[2, -1 / 2]], exc_I := [[2 / 5, 2 / 5]],
            exc_X := [[19 / 5, 4 / 5]]\<rparr>,
          [[True, False]], [[3, 0]]) \<and>
   (0::nat) < length (exc_v exc_example) \<and> 1 < exc_n exc_example \<and>
   0 < exc_refrac_count exc_example ! 0 ! 1 \<and>
   [[3, 5 :: real]] ! 0 ! 1 = 5 \<and>
   [[3, 0 :: real]] ! 0 ! 1 = 0 \<and>
   [[19 / 5, 4 / 5 :: real]] ! 0 ! 1 =
     exc_X exc_example ! 0 ! 1 - exc_X_decay exc_example * exc_X exc_example ! 0 ! 1 \<and>
   [[2, -1 / 2 :: real]] ! 0 ! 1 = exc_refrac_count exc_example ! 0 ! 1 - exc_dt exc_example \<and>
   [[2, -1 / 2 :: real]] ! 0 ! 1 < 0"
proof -
  have b: "0 < length (exc_v exc_example)" and i: "1 < exc_n exc_example"
    by (simp_all add: exc_example_def)
  show ?thesis
    using exc_forward_refractory_gate [OF exc_forward_example b i] exc_forward_example
    by (simp add: exc_example_def)
qed

text \<open>
  C9. \<^verbatim>\<open>forward\<close> writes into its argument: the tensor the caller passed has, after the
  step, zero at every entry whose refractory counter was positive at the start of the
  step and its old value elsewhere. It is a different tensor as soon as one such entry
  was not zero.
\<close>

theorem exc_forward_overwrites_input:
  fixes s :: "real exc_nodes"
  assumes "exc_forward s x = Inr (s', sp, x')"
  shows "has_shape (length (exc_v s)) (exc_n s) x \<and>
         has_shape (length (exc_v s)) (exc_n s) x' \<and>
         (\<forall>b < length (exc_v s). \<forall>i < exc_n s.
            x' ! b ! i = (if 0 < exc_refrac_count s ! b ! i then 0 else x ! b ! i)) \<and>
         ((\<exists>b < length (exc_v s). \<exists>i < exc_n s.
             0 < exc_refrac_count s ! b ! i \<and> x ! b ! i \<noteq> 0) \<longrightarrow> x' \<noteq> x)"
proof -
  have ok: "exc_shapes_ok s x"
    using assms by (rule exc_forward_shapes)
  have x': "x' = exc_x_masked s x"
    using assms by (rule exc_forward_x)
  have entries: "\<forall>b < length (exc_v s). \<forall>i < exc_n s.
      x' ! b ! i = (if 0 < exc_refrac_count s ! b ! i then 0 else x ! b ! i)"
    using exc_x_masked_nth [OF ok] x' by simp
  have "x' \<noteq> x"
    if "\<exists>b < length (exc_v s). \<exists>i < exc_n s. 0 < exc_refrac_count s ! b ! i \<and> x ! b ! i \<noteq> 0"
  proof -
    from that obtain b i where "b < length (exc_v s)" "i < exc_n s"
      and "0 < exc_refrac_count s ! b ! i" "x ! b ! i \<noteq> 0"
      by blast
    with entries have "x' ! b ! i \<noteq> x ! b ! i" by simp
    then show ?thesis by auto
  qed
  with entries has_shape_exc_x_masked [OF ok] x' exc_shapes_okD(6) [OF ok]
  show ?thesis by blast
qed

theorem exc_forward_overwrites_input_witness:
  "exc_forward exc_example [[3, 5]] =
     Inr (exc_example\<lparr>exc_v := [[0, -100]],
            exc_theta := [20049999 / 1000000, 19999999 / 1000000],
            exc_refrac_count := [[2, -1 / 2]], exc_I := [[2 / 5, 2 / 5]],
            exc_X := [[19 / 5, 4 / 5]]\<rparr>,
          [[True, False]], [[3, 0]]) \<and>
   0 < exc_refrac_count exc_example ! 0 ! 1 \<and>
   [[3, 5 :: real]] ! 0 ! 1 \<noteq> 0 \<and>
   has_shape 1 2 [[3, 0 :: real]] \<and>
   [[3, 0 :: real]] \<noteq> [[3, 5]]"
  using exc_forward_overwrites_input [OF exc_forward_example] exc_forward_example
  by (simp add: exc_example_def has_shape_def)


section \<open>The adaptive threshold\<close>







section \<open>The output population in learning mode\<close>

text \<open>The population of two neurons as the three class operations leave it.\<close>

lemma sl_built_eq:
  "sl_built = \<lparr>sl_n = 2, sl_dt = 1, sl_learning = True,
     sl_rest = -30, sl_reset = -45, sl_thresh = -40,
     sl_tc_decay = 10, sl_decay = 1 / 10,
     sl_I = [[0, 0]], sl_X = [[0, 0]],
     sl_tau_inc = 10, sl_tau_dec = 5, sl_I_decay = 1 / 10, sl_X_decay = 1 / 5,
     sl_C = 4, sl_R = 32, sl_v = [[-30, -30]]\<rparr>"
proof -
  have "(1 / 2 :: real) powr (- 2) = 4"
    by (simp add: powr_minus power2_eq_square field_simps)
  then show ?thesis
    by (simp add: sl_built_def QuintanaSLNodes_init_def sl_compute_decays_def
        sl_set_batch_size_def sl_high_rest_def sl_defaults_def tmap_def full_def
        numeral_2_eq_2)
qed

lemma sl_forward_built:
  "sl_forward sl_built [[7, 9]] = Inr (sl_built\<lparr>sl_v := [[-45, -45]]\<rparr>, [[True, True]])"
  by (simp add: sl_forward_def sl_built_eq tensor_defs)

text \<open>In learning mode the shape of the input does not matter: it is not read.\<close>

lemma sl_forward_example:
  "sl_forward sl_example [[7, 9, 11]] =
     Inr (sl_example\<lparr>sl_v := [[-45, -50]]\<rparr>, [[True, False]])"
  by (simp add: sl_forward_def sl_example_def tensor_defs)

text \<open>
  Outside learning mode the three decays run and the input is broadcast to the shape of
  \<open>X\<close>: one input entry is added to the traces of both neurons.
\<close>

lemma sl_forward_example_inference:
  "sl_forward (sl_example\<lparr>sl_learning := False\<rparr>) [[7]] =
     Inr (sl_example\<lparr>sl_learning := False, sl_v := [[-45, -223 / 5]],
            sl_I := [[21 / 10, 17 / 5]], sl_X := [[47 / 5, 51 / 5]]\<rparr>,
          [[True, False]])"
  by (simp add: sl_forward_def sl_integrate_def sl_state_ok_def sl_example_def tensor_defs
      numeral_2_eq_2 Let_def)

text \<open>
  C5, as the code has it. In learning mode a step completes on every input and leaves
  \<open>I\<close> and \<open>X\<close> exactly as they were. The spike check and the voltage reset are outside
  the mode switch: the voltage keeps its value in every entry for which
  \<open>v \<ge> thresh\<close> is false, and every entry at or above \<open>thresh\<close> is marked as a spike
  and set to the reset voltage. This holds for every type of entries.
\<close>

theorem sl_forward_learning_frame:
  fixes s :: "('a::{plus,minus,times,ord}) sl_nodes"
  assumes "sl_learning s"
  shows "\<exists>s' sp. sl_forward s x = Inr (s', sp) \<and>
           sl_I s' = sl_I s \<and> sl_X s' = sl_X s \<and>
           map length (sl_v s') = map length (sl_v s) \<and>
           (\<forall>b < length (sl_v s). \<forall>i < length (sl_v s ! b).
              (sp ! b ! i \<longleftrightarrow> sl_thresh s \<le> sl_v s ! b ! i) \<and>
              sl_v s' ! b ! i =
                (if sl_thresh s \<le> sl_v s ! b ! i then sl_reset s else sl_v s ! b ! i))"
proof -
  let ?sp = "tmap (\<lambda>v. v \<ge> sl_thresh s) (sl_v s)"
  let ?v = "masked_fill (sl_v s) ?sp (sl_reset s)"
  have fw: "sl_forward s x = Inr (s\<lparr>sl_v := ?v, sl_I := sl_I s, sl_X := sl_X s\<rparr>, ?sp)"
    using assms by (simp add: sl_forward_def Let_def)
  have len: "map length ?v = map length (sl_v s)"
    by (simp add: masked_fill_def tmap2_def tmap_def list_eq_iff_nth_eq)
  have "(?sp ! b ! i \<longleftrightarrow> sl_thresh s \<le> sl_v s ! b ! i) \<and>
        ?v ! b ! i = (if sl_thresh s \<le> sl_v s ! b ! i then sl_reset s else sl_v s ! b ! i)"
    if "b < length (sl_v s)" and "i < length (sl_v s ! b)" for b i
    using that by (simp add: masked_fill_def tmap2_def tmap_def)
  with fw len show ?thesis by simp
qed

theorem sl_forward_learning_frame_witness:
  "sl_learning sl_example \<and>
   sl_forward sl_example [[7, 9, 11]] =
     Inr (sl_example\<lparr>sl_v := [[-45, -50]]\<rparr>, [[True, False]]) \<and>
   sl_I (sl_example\<lparr>sl_v := [[-45, -50]]\<rparr>) = sl_I sl_example \<and>
   sl_X (sl_example\<lparr>sl_v := [[-45, -50]]\<rparr>) = sl_X sl_example \<and>
   sl_thresh sl_example \<le> sl_v sl_example ! 0 ! 0 \<and>
   [[-45, -50 :: real]] ! 0 ! 0 = sl_reset sl_example \<and>
   \<not> sl_thresh sl_example \<le> sl_v sl_example ! 0 ! 1 \<and>
   [[-45, -50 :: real]] ! 0 ! 1 = sl_v sl_example ! 0 ! 1"
proof -
  have l: "sl_learning sl_example"
    by (simp add: sl_example_def)
  show ?thesis
    using sl_forward_learning_frame [OF l, of "[[7, 9, 11]]"] sl_forward_example
    by (simp add: sl_example_def)
qed

text \<open>
  The claim of C5 as the specification states it fails for the voltage. The population
  constructed in learning mode with a resting voltage of \<open>-30\<close>, above the threshold of
  \<open>-40\<close>, has the voltage \<open>-30\<close> after \<^verbatim>\<open>set_batch_size\<close>, and its first step in
  learning mode resets both neurons to \<open>-45\<close>.
\<close>

theorem sl_forward_learning_resets_voltage:
  "sl_learning sl_built \<and>
   sl_v sl_built = [[-30, -30]] \<and>
   sl_forward sl_built [[7, 9]] = Inr (sl_built\<lparr>sl_v := [[-45, -45]]\<rparr>, [[True, True]]) \<and>
   sl_v (sl_built\<lparr>sl_v := [[-45, -45]]\<rparr>) \<noteq> sl_v sl_built"
  using sl_forward_built
  by (simp add: sl_built_eq)

section \<open>The states the step runs on\<close>

text \<open>
  \<^verbatim>\<open>set_batch_size\<close> gives the four batched tensors the shape the step asks for, so that
  a step on a population set up that way completes on every input of that shape.
\<close>

lemma has_shape_full: "has_shape B n (full B n c)"
  by (simp add: has_shape_def full_def list_all_length)

lemma exc_set_batch_size_shapes_ok:
  assumes "length (exc_theta s) = exc_n s" and "has_shape B (exc_n s) x"
  shows "exc_shapes_ok (exc_set_batch_size s B) x"
proof -
  have "length (tmap (\<lambda>one. exc_rest s * one) (full B (exc_n s) 1)) = B"
    by (simp add: tmap_def full_def)
  then show ?thesis
    using assms
    by (simp add: exc_shapes_ok_def exc_state_ok_def exc_set_batch_size_def Let_def
        has_shape_tmap has_shape_full)
qed

lemma exc_forward_after_set_batch_size:
  assumes "length (exc_theta s) = exc_n s" and "has_shape B (exc_n s) x"
  shows "\<exists>s' sp x'. exc_forward (exc_set_batch_size s B) x = Inr (s', sp, x')"
  using exc_set_batch_size_shapes_ok [OF assms] by (rule exc_forward_total)

text \<open>
  With the time constants that \<^verbatim>\<open>model.py\<close> passes, \<open>tau_inc = 10\<close> and
  \<open>tau_dec = 5\<close>, the kernel constant is \<open>(1 / 2)\<close> to the power \<open>-2\<close>, the value 4 of
  the example states.
\<close>

lemma exc_compute_decays_C:
  assumes "exc_tau_inc s = 10" and "exc_tau_dec s = 5"
  shows "exc_C (exc_compute_decays s dt) = 4"
proof -
  have "(1 / 2 :: real) powr (- 2) = 4"
    by (simp add: powr_minus power2_eq_square field_simps)
  then show ?thesis
    using assms by (simp add: exc_compute_decays_def)
qed

end
